theory Spec2Isabelle
  imports Main "HOL-Library.Word" "HOL-Library.Signed_Division"
begin

unbundle bit_operations_syntax

section \<open>Go values\<close>

text \<open>
  Go's \<open>int\<close> is taken at 64 bits (amd64, arm64); \<open>int32\<close> is a 32-bit word. Both are
  two's complement: comparisons read them with \<open>sint\<close>. A Go string is a sequence of
  bytes, here a \<open>string\<close> (a list of 8-bit characters); \<open>[]byte\<close> is a list of bytes.
\<close>

type_synonym goint = "64 word"
type_synonym int32 = "32 word"
type_synonym bytes = "8 word list"
type_synonym addr = nat

text \<open>The conversion \<open>[]byte(s)\<close> of a string.\<close>

definition bytes_of_string :: "string \<Rightarrow> bytes" where
  "bytes_of_string s = map of_char s"

text \<open>The conversion \<open>int32(x)\<close> of an \<open>int\<close> keeps the low 32 bits.\<close>

definition to_int32 :: "goint \<Rightarrow> int32" where
  "to_int32 x = ucast x"

text \<open>The conversion \<open>int(x)\<close> of an \<open>int32\<close> extends the sign.\<close>

definition to_int :: "int32 \<Rightarrow> goint" where
  "to_int x = scast x"

text \<open>Go's \<open>/\<close> on \<open>int32\<close> truncates towards zero.\<close>

definition div32 :: "int32 \<Rightarrow> int32 \<Rightarrow> int32" where
  "div32 a b = word_of_int (sint a sdiv sint b)"

text \<open>\<open>strconv.Itoa\<close>: the decimal digits, most significant first, after a minus sign
  for a negative number.\<close>

fun digits :: "nat \<Rightarrow> string" where
  "digits n =
     (if n < 10 then [char_of (48 + n)]
      else digits (n div 10) @ [char_of (48 + n mod 10)])"

declare digits.simps [simp del]

definition decimal :: "int \<Rightarrow> string" where
  "decimal i = (if i < 0 then CHR ''-'' # digits (nat (- i)) else digits (nat i))"

definition Itoa :: "goint \<Rightarrow> string" where
  "Itoa i = decimal (sint i)"

text \<open>Reading a decimal rendering back, for stating what \<open>Itoa\<close> renders.\<close>

definition decimal_value :: "string \<Rightarrow> nat" where
  "decimal_value s = foldl (\<lambda>acc c. 10 * acc + (of_char c - 48)) 0 s"

definition read_decimal :: "string \<Rightarrow> int" where
  "read_decimal s =
     (case s of
        [] \<Rightarrow> 0
      | c # cs \<Rightarrow> if c = CHR ''-'' then - int (decimal_value cs) else int (decimal_value s))"

section \<open>The transport library's data\<close>

text \<open>
  The structures of the \<open>ibmmq\<close> package that \<open>Send\<close> reads or writes, with the fields
  it touches and the descriptor's reply-to queue and message identifier. Descriptors
  are handled through pointers (\<open>*ibmmq.MQMD\<close>): they live in a store, a list indexed by
  address, and \<open>nil\<close> is \<open>None\<close>.
\<close>

record MQReturn =
  MQCC :: int32
  MQRC :: int32
  verb :: string

record MQOD =
  ObjectType :: int32
  ObjectName :: string

record MQMD =
  Format :: string
  Persistence :: int32
  Expiry :: int32
  ReplyToQ :: string
  MsgId :: bytes

record MQPMO =
  Options :: int32

record MQObject =
  hObj :: int32
  qMgr :: "nat option"
  Name :: string

text \<open>The zero value \<open>ibmmq.MQObject{}\<close>.\<close>

definition zeroMQObject :: MQObject where
  "zeroMQObject = \<lparr>hObj = 0, qMgr = None, Name = []\<rparr>"

text \<open>
  What \<open>Send\<close> imports and does not define: the constants and constructors of \<open>ibmmq\<close>,
  the constants of \<open>jms20subset\<close>, the reason-code table \<open>MQItoString\<close>, and the two
  transport calls. \<open>Open\<close> returns the object and the error of \<open>qMgr.Open\<close>; \<open>Put\<close>
  returns the descriptor as the call leaves it behind the pointer, and its error.
  Every definition below takes them as the parameter \<open>K\<close>.
\<close>

record mq =
  MQOO_OUTPUT :: int32
  MQOO_FAIL_IF_QUIESCING :: int32
  MQOO_INPUT_AS_Q_DEF :: int32
  MQOT_Q :: int32
  MQPMO_NO_SYNCPOINT :: int32
  MQPMO_SYNCPOINT :: int32
  MQPMO_NEW_MSG_ID :: int32
  MQPER_NOT_PERSISTENT :: int32
  MQPER_PERSISTENT :: int32
  MQFMT_STRING :: string
  MQFMT_NONE :: string
  NewMQOD :: MQOD
  NewMQMD :: MQMD
  NewMQPMO :: MQPMO
  MQItoString :: "string \<Rightarrow> goint \<Rightarrow> string"
  DeliveryMode_PERSISTENT :: goint
  DeliveryMode_NON_PERSISTENT :: goint
  JMSContextSESSIONTRANSACTED :: goint
  Open :: "MQOD \<Rightarrow> int32 \<Rightarrow> MQObject \<times> MQReturn option"
  Put :: "MQObject \<Rightarrow> MQMD \<Rightarrow> MQPMO \<Rightarrow> bytes \<Rightarrow> MQMD \<times> MQReturn option"

section \<open>The collaborators of the producer\<close>

text \<open>Modelled from the spec: the Error of \<open>jms20subset\<close>, missing from the sources, is
  the triple of a human-readable reason, a machine error code and the wrapped native
  cause; \<open>CreateJMSException\<close> builds it from its three arguments in that order.\<close>

record JMSException =
  reason :: string
  errorCode :: string
  linkedErr :: "MQReturn option"

definition CreateJMSException :: "string \<Rightarrow> string \<Rightarrow> MQReturn option \<Rightarrow> JMSException" where
  "CreateJMSException r c e = \<lparr>reason = r, errorCode = c, linkedErr = e\<rparr>"

text \<open>Modelled from the spec: the session, missing from the sources, exposes a readable
  transaction mode; its queue manager is the one behind \<open>Open\<close>.\<close>

record ContextImpl =
  sessionMode :: goint

text \<open>Modelled from the spec: a destination, missing from the sources, identifies a
  queue by name.\<close>

datatype Destination = Queue string

fun GetDestinationName :: "Destination \<Rightarrow> string" where
  "GetDestinationName (Queue n) = n"

text \<open>Modelled from the spec: the message variants, missing from the sources. A text
  message holds an optional text (\<open>GetText\<close> returns \<open>nil\<close> when absent), a bytes message
  its raw content (\<open>ReadBytes\<close>), and each a pointer to a previously assigned descriptor
  or \<open>nil\<close>. \<open>OtherMessage\<close> stands for any further implementation of the interface.\<close>

datatype Message =
    TextMessageImpl "string option" "addr option"
  | BytesMessageImpl bytes "addr option"
  | OtherMessage

fun mqmd :: "Message \<Rightarrow> addr option" where
  "mqmd (TextMessageImpl b p) = p"
| "mqmd (BytesMessageImpl b p) = p"
| "mqmd OtherMessage = None"

text \<open>A message's descriptor pointer is \<open>nil\<close> or points into the store.\<close>

definition valid_message :: "MQMD list \<Rightarrow> Message \<Rightarrow> bool" where
  "valid_message h m = (case mqmd m of None \<Rightarrow> True | Some a \<Rightarrow> a < length h)"

section \<open>The producer\<close>

record ProducerImpl =
  ctx :: ContextImpl
  deliveryMode :: goint
  timeToLive :: goint

subsection \<open>Send\<close>

text \<open>The transport calls of one \<open>Send\<close>, in the order they are made.\<close>

datatype event =
    EvOpen MQOD int32
  | EvPut MQObject addr MQMD MQPMO bytes
  | EvClose MQObject int32

text \<open>\<open>Send\<close> returns its error or \<open>nil\<close>, or ends the process in \<open>log.Fatal\<close>.\<close>

datatype outcome = Returned "JMSException option" | Fatal JMSException

record result =
  outcome :: outcome
  heap :: "MQMD list"
  message :: Message
  trace :: "event list"

definition openOptions :: "mq \<Rightarrow> int32" where
  "openOptions K = (MQOO_OUTPUT K + MQOO_FAIL_IF_QUIESCING K) OR MQOO_INPUT_AS_Q_DEF K"

definition syncpointSetting :: "mq \<Rightarrow> ProducerImpl \<Rightarrow> int32" where
  "syncpointSetting K producer =
     (if sessionMode (ctx producer) = JMSContextSESSIONTRANSACTED K
      then MQPMO_SYNCPOINT K else MQPMO_NO_SYNCPOINT K)"

definition putOptions :: "mq \<Rightarrow> ProducerImpl \<Rightarrow> int32" where
  "putOptions K producer = syncpointSetting K producer OR MQPMO_NEW_MSG_ID K"

definition persistenceOf :: "mq \<Rightarrow> ProducerImpl \<Rightarrow> int32" where
  "persistenceOf K producer =
     (if deliveryMode producer = DeliveryMode_NON_PERSISTENT K
      then MQPER_NOT_PERSISTENT K else MQPER_PERSISTENT K)"

text \<open>
  The type switch. Each recognised case takes the message's own descriptor when it has
  one, stores the pointer on the message, sets the format behind the pointer and fills
  the buffer; the result is the message, the store, the pointer and the buffer. The
  default case is \<open>None\<close>.
\<close>

fun dispatch ::
  "mq \<Rightarrow> Message \<Rightarrow> MQMD list \<Rightarrow> addr \<Rightarrow> (Message \<times> MQMD list \<times> addr \<times> bytes) option" where
  "dispatch K (TextMessageImpl msgStr p) h putmqmd =
     (let putmqmd' = (case p of Some a \<Rightarrow> a | None \<Rightarrow> putmqmd);
          typedMsg = TextMessageImpl msgStr (Some putmqmd');
          h' = h[putmqmd' := (h ! putmqmd')\<lparr>Format := MQFMT_STRING K\<rparr>];
          buffer = (case msgStr of Some s \<Rightarrow> bytes_of_string s | None \<Rightarrow> [])
      in Some (typedMsg, h', putmqmd', buffer))"
| "dispatch K (BytesMessageImpl body p) h putmqmd =
     (let putmqmd' = (case p of Some a \<Rightarrow> a | None \<Rightarrow> putmqmd);
          typedMsg = BytesMessageImpl body (Some putmqmd');
          h' = h[putmqmd' := (h ! putmqmd')\<lparr>Format := MQFMT_NONE K\<rparr>];
          buffer = body
      in Some (typedMsg, h', putmqmd', buffer))"
| "dispatch K OtherMessage h putmqmd = None"

definition applyTTL :: "ProducerImpl \<Rightarrow> MQMD list \<Rightarrow> addr \<Rightarrow> MQMD list" where
  "applyTTL producer h putmqmd =
     (if 0 <s timeToLive producer
      then h[putmqmd := (h ! putmqmd)\<lparr>Expiry := div32 (to_int32 (timeToLive producer)) 100\<rparr>]
      else h)"

text \<open>The block that handles the error of either call.\<close>

definition errorBlock :: "mq \<Rightarrow> MQReturn option \<Rightarrow> JMSException option" where
  "errorBlock K err =
     (case err of
        None \<Rightarrow> None
      | Some e \<Rightarrow>
          (let rcInt = to_int (MQRC e);
               errCode = Itoa rcInt;
               reason = MQItoString K ''RC'' rcInt
           in Some (CreateJMSException reason errCode (Some e))))"

text \<open>The object descriptor that \<open>Send\<close> opens, and what \<open>Open\<close> returns for it.\<close>

definition destinationOD :: "mq \<Rightarrow> Destination \<Rightarrow> MQOD" where
  "destinationOD K dest =
     (NewMQOD K)\<lparr>ObjectType := MQOT_Q K, ObjectName := GetDestinationName dest\<rparr>"

definition openResult :: "mq \<Rightarrow> Destination \<Rightarrow> MQObject \<times> MQReturn option" where
  "openResult K dest = Open K (destinationOD K dest) (openOptions K)"

text \<open>
  \<open>Send\<close> on a store \<open>h\<close> of descriptors. The deferred \<open>Close\<close> is registered when the
  object that \<open>Open\<close> returned is not the zero object, and runs when \<open>Send\<close> returns;
  \<open>log.Fatal\<close> ends the process without running it.
\<close>

definition Send :: "mq \<Rightarrow> ProducerImpl \<Rightarrow> Destination \<Rightarrow> Message \<Rightarrow> MQMD list \<Rightarrow> result" where
  "Send K producer dest msg h =
     (let mqod = destinationOD K dest;
          (qObject, err) = Open K mqod (openOptions K);
          deferred = (if zeroMQObject \<noteq> qObject then [EvClose qObject 0] else [])
      in case err of
           Some e \<Rightarrow>
             \<lparr>outcome = Returned (errorBlock K err), heap = h, message = msg,
              trace = EvOpen mqod (openOptions K) # deferred\<rparr>
         | None \<Rightarrow>
             (let putmqmd = length h;
                  h1 = h @ [NewMQMD K];
                  pmo = (NewMQPMO K)\<lparr>Options := putOptions K producer\<rparr>;
                  h2 = h1[putmqmd := (h1 ! putmqmd)\<lparr>Persistence := persistenceOf K producer\<rparr>]
              in case dispatch K msg h2 putmqmd of
                   None \<Rightarrow>
                     \<lparr>outcome = Fatal (CreateJMSException ''UnexpectedMessageType''
                                  ''UnexpectedMessageType-send1'' None),
                      heap = h2, message = msg, trace = [EvOpen mqod (openOptions K)]\<rparr>
                 | Some (typedMsg, h3, putmqmd', buffer) \<Rightarrow>
                     (let h4 = applyTTL producer h3 putmqmd';
                          (md, err') = Put K qObject (h4 ! putmqmd') pmo buffer
                      in \<lparr>outcome = Returned (errorBlock K err'),
                          heap = h4[putmqmd' := md], message = typedMsg,
                          trace = [EvOpen mqod (openOptions K),
                                   EvPut qObject putmqmd' (h4 ! putmqmd') pmo buffer] @ deferred\<rparr>)))"

subsection \<open>Reading a result\<close>

text \<open>
  The definitions of this subsection are not part of the program: they read a trace
  or an outcome, or name a part of what \<open>Send\<close> computes, and the lemmas further down
  prove that \<open>Send\<close> computes it.
\<close>

text \<open>The puts and the closes of a trace, in order.\<close>

fun puts :: "event list \<Rightarrow> (MQObject \<times> addr \<times> MQMD \<times> MQPMO \<times> bytes) list" where
  "puts [] = []"
| "puts (EvPut obj a md pmo buf # es) = (obj, a, md, pmo, buf) # puts es"
| "puts (EvOpen od oo # es) = puts es"
| "puts (EvClose obj n # es) = puts es"

fun closes :: "event list \<Rightarrow> MQObject list" where
  "closes [] = []"
| "closes (EvClose obj n # es) = obj # closes es"
| "closes (EvOpen od oo # es) = closes es"
| "closes (EvPut obj a md pmo buf # es) = closes es"

fun put_descriptors :: "event list \<Rightarrow> MQMD list" where
  "put_descriptors [] = []"
| "put_descriptors (EvPut obj a md pmo buf # es) = md # put_descriptors es"
| "put_descriptors (EvOpen od oo # es) = put_descriptors es"
| "put_descriptors (EvClose obj n # es) = put_descriptors es"

fun put_options :: "event list \<Rightarrow> MQPMO list" where
  "put_options [] = []"
| "put_options (EvPut obj a md pmo buf # es) = pmo # put_options es"
| "put_options (EvOpen od oo # es) = put_options es"
| "put_options (EvClose obj n # es) = put_options es"

text \<open>A put of a trace as the event it was.\<close>

fun put_event :: "MQObject \<times> addr \<times> MQMD \<times> MQPMO \<times> bytes \<Rightarrow> event" where
  "put_event (obj, a, md, pmo, buf) = EvPut obj a md pmo buf"

text \<open>The native error of a trace: that of the first call that failed, if any.\<close>

fun failure :: "mq \<Rightarrow> event list \<Rightarrow> MQReturn option" where
  "failure K [] = None"
| "failure K (EvOpen od oo # es) =
     (case snd (Open K od oo) of Some e \<Rightarrow> Some e | None \<Rightarrow> failure K es)"
| "failure K (EvPut obj a md pmo buf # es) =
     (case snd (Put K obj md pmo buf) of Some e \<Rightarrow> Some e | None \<Rightarrow> failure K es)"
| "failure K (EvClose obj n # es) = failure K es"

fun is_fatal :: "outcome \<Rightarrow> bool" where
  "is_fatal (Fatal x) = True"
| "is_fatal (Returned e) = False"

text \<open>The error code of a returned error, read back as a number.\<close>

definition returned_code :: "outcome \<Rightarrow> int option" where
  "returned_code out =
     (case out of
        Returned None \<Rightarrow> None
      | Returned (Some x) \<Rightarrow> Some (read_decimal (errorCode x))
      | Fatal x \<Rightarrow> None)"

text \<open>The format a recognised variant is sent with.\<close>

fun formatOf :: "mq \<Rightarrow> Message \<Rightarrow> string" where
  "formatOf K (TextMessageImpl b p) = MQFMT_STRING K"
| "formatOf K (BytesMessageImpl b p) = MQFMT_NONE K"
| "formatOf K OtherMessage = []"

text \<open>The payload of a recognised variant, and the variant with its pointer set.\<close>

fun payload :: "Message \<Rightarrow> bytes" where
  "payload (TextMessageImpl (Some s) p) = bytes_of_string s"
| "payload (TextMessageImpl None p) = []"
| "payload (BytesMessageImpl b p) = b"
| "payload OtherMessage = []"

fun with_mqmd :: "Message \<Rightarrow> addr \<Rightarrow> Message" where
  "with_mqmd (TextMessageImpl b p) a = TextMessageImpl b (Some a)"
| "with_mqmd (BytesMessageImpl b p) a = BytesMessageImpl b (Some a)"
| "with_mqmd OtherMessage a = OtherMessage"

text \<open>
  The address a put works on (the message's own descriptor, or the next free address
  of the store) and the descriptor found there before format and expiry are set: the
  message's own, or a new one with the producer's persistence.
\<close>

definition put_address :: "MQMD list \<Rightarrow> Message \<Rightarrow> addr" where
  "put_address h msg = (case mqmd msg of Some p \<Rightarrow> p | None \<Rightarrow> length h)"

definition base_descriptor :: "mq \<Rightarrow> ProducerImpl \<Rightarrow> MQMD list \<Rightarrow> Message \<Rightarrow> MQMD" where
  "base_descriptor K producer h msg =
     (case mqmd msg of
        Some p \<Rightarrow> h ! p
      | None \<Rightarrow> (NewMQMD K)\<lparr>Persistence := persistenceOf K producer\<rparr>)"

text \<open>The store as the put finds it: the new descriptor allocated and given the
  producer's persistence, the format set behind the pointer, the time to live applied.\<close>

definition store_before_put :: "mq \<Rightarrow> ProducerImpl \<Rightarrow> Message \<Rightarrow> MQMD list \<Rightarrow> MQMD list" where
  "store_before_put K producer msg h =
     applyTTL producer
       (((h @ [NewMQMD K])[length h := (NewMQMD K)\<lparr>Persistence := persistenceOf K producer\<rparr>])
          [put_address h msg :=
             (((h @ [NewMQMD K])[length h := (NewMQMD K)\<lparr>Persistence := persistenceOf K producer\<rparr>])
                ! put_address h msg)\<lparr>Format := formatOf K msg\<rparr>])
       (put_address h msg)"

text \<open>The descriptor and the options handed to the put, and the deferred close.\<close>

definition put_descriptor :: "mq \<Rightarrow> ProducerImpl \<Rightarrow> Message \<Rightarrow> MQMD list \<Rightarrow> MQMD" where
  "put_descriptor K producer msg h = store_before_put K producer msg h ! put_address h msg"

definition put_pmo :: "mq \<Rightarrow> ProducerImpl \<Rightarrow> MQPMO" where
  "put_pmo K producer = (NewMQPMO K)\<lparr>Options := putOptions K producer\<rparr>"

definition deferred_close :: "MQObject \<Rightarrow> event list" where
  "deferred_close qObject = (if zeroMQObject \<noteq> qObject then [EvClose qObject 0] else [])"

subsection \<open>The option setters and getters\<close>

text \<open>
  The setters have a pointer receiver and return it: producers live in a store, the
  setter takes the address and returns the address, the store and the lines printed.
\<close>

record setter_result =
  returned :: addr
  producers :: "addr \<Rightarrow> ProducerImpl"
  printed :: "string list"

definition SetDeliveryMode ::
  "mq \<Rightarrow> addr \<Rightarrow> goint \<Rightarrow> (addr \<Rightarrow> ProducerImpl) \<Rightarrow> setter_result" where
  "SetDeliveryMode K producer mode ps =
     (if mode = DeliveryMode_PERSISTENT K \<or> mode = DeliveryMode_NON_PERSISTENT K
      then \<lparr>returned = producer,
            producers = ps(producer := (ps producer)\<lparr>deliveryMode := mode\<rparr>),
            printed = []\<rparr>
      else \<lparr>returned = producer, producers = ps,
            printed = [''Invalid DeliveryMode specified: '' @ Itoa mode]\<rparr>)"

definition GetDeliveryMode :: "addr \<Rightarrow> (addr \<Rightarrow> ProducerImpl) \<Rightarrow> goint" where
  "GetDeliveryMode producer ps = deliveryMode (ps producer)"

definition SetTimeToLive ::
  "addr \<Rightarrow> goint \<Rightarrow> (addr \<Rightarrow> ProducerImpl) \<Rightarrow> setter_result" where
  "SetTimeToLive producer ttl ps =
     (if 0 \<le>s ttl
      then \<lparr>returned = producer,
            producers = ps(producer := (ps producer)\<lparr>timeToLive := ttl\<rparr>),
            printed = []\<rparr>
      else \<lparr>returned = producer, producers = ps,
            printed = [''Invalid TimeToLive specified: '' @ Itoa ttl]\<rparr>)"

definition GetTimeToLive :: "addr \<Rightarrow> (addr \<Rightarrow> ProducerImpl) \<Rightarrow> goint" where
  "GetTimeToLive producer ps = timeToLive (ps producer)"

section \<open>Concrete values\<close>

text \<open>
  An instance of the parameters for the examples: the values that the Go binding of
  IBM MQ gives its constants (the formats without padding, a new descriptor with the
  empty format and 24 zero bytes as message identifier), the JMS values of the delivery
  modes and of the transacted session mode, and a transport given by its two calls.
\<close>

definition reasons :: "string \<Rightarrow> goint \<Rightarrow> string" where
  "reasons kind rc =
     (if kind = ''RC'' \<and> rc = 2085 then ''MQRC_UNKNOWN_OBJECT_NAME''
      else if kind = ''RC'' \<and> rc = 2053 then ''MQRC_Q_FULL''
      else [])"

definition ibm ::
  "(MQOD \<Rightarrow> int32 \<Rightarrow> MQObject \<times> MQReturn option) \<Rightarrow>
   (MQObject \<Rightarrow> MQMD \<Rightarrow> MQPMO \<Rightarrow> bytes \<Rightarrow> MQMD \<times> MQReturn option) \<Rightarrow> mq" where
  "ibm opn pt =
     \<lparr>MQOO_OUTPUT = 16, MQOO_FAIL_IF_QUIESCING = 8192, MQOO_INPUT_AS_Q_DEF = 1,
      MQOT_Q = 1,
      MQPMO_NO_SYNCPOINT = 4, MQPMO_SYNCPOINT = 2, MQPMO_NEW_MSG_ID = 64,
      MQPER_NOT_PERSISTENT = 0, MQPER_PERSISTENT = 1,
      MQFMT_STRING = ''MQSTR'', MQFMT_NONE = [],
      NewMQOD = \<lparr>ObjectType = 1, ObjectName = []\<rparr>,
      NewMQMD = \<lparr>Format = [], Persistence = 2, Expiry = - 1, ReplyToQ = [],
                 MsgId = replicate 24 0\<rparr>,
      NewMQPMO = \<lparr>Options = 0\<rparr>,
      MQItoString = reasons,
      DeliveryMode_PERSISTENT = 2, DeliveryMode_NON_PERSISTENT = 1,
      JMSContextSESSIONTRANSACTED = 0,
      Open = opn, Put = pt\<rparr>"

text \<open>An open that succeeds; one that fails and still returns a populated object; one
  that fails and returns the zero object.\<close>

definition open_ok :: "MQOD \<Rightarrow> int32 \<Rightarrow> MQObject \<times> MQReturn option" where
  "open_ok od oo = (\<lparr>hObj = 101, qMgr = Some 0, Name = ObjectName od\<rparr>, None)"

definition open_unknown :: "MQOD \<Rightarrow> int32 \<Rightarrow> MQObject \<times> MQReturn option" where
  "open_unknown od oo =
     (\<lparr>hObj = - 1, qMgr = Some 0, Name = ObjectName od\<rparr>,
      Some \<lparr>MQCC = 2, MQRC = 2085, verb = ''MQOPEN''\<rparr>)"

definition open_nothing :: "MQOD \<Rightarrow> int32 \<Rightarrow> MQObject \<times> MQReturn option" where
  "open_nothing od oo = (zeroMQObject, Some \<lparr>MQCC = 2, MQRC = 2085, verb = ''MQOPEN''\<rparr>)"

text \<open>A put that succeeds and assigns a message identifier; one that fails on a full
  queue and leaves the descriptor as it was.\<close>

definition put_ok :: "MQObject \<Rightarrow> MQMD \<Rightarrow> MQPMO \<Rightarrow> bytes \<Rightarrow> MQMD \<times> MQReturn option" where
  "put_ok obj md pmo buf = (md\<lparr>MsgId := [65, 77, 81]\<rparr>, None)"

definition put_full :: "MQObject \<Rightarrow> MQMD \<Rightarrow> MQPMO \<Rightarrow> bytes \<Rightarrow> MQMD \<times> MQReturn option" where
  "put_full obj md pmo buf = (md, Some \<lparr>MQCC = 2, MQRC = 2053, verb = ''MQPUT''\<rparr>)"

text \<open>A producer of a non-transacted session, persistent and with no time to live; a
  descriptor as a receive leaves it, with a reply-to queue.\<close>

definition producer0 :: ProducerImpl where
  "producer0 = \<lparr>ctx = \<lparr>sessionMode = 1\<rparr>, deliveryMode = 2, timeToLive = 0\<rparr>"

definition received :: MQMD where
  "received = \<lparr>Format = ''MQSTR'', Persistence = 0, Expiry = 30, ReplyToQ = ''REPLIES'',
               MsgId = [1, 2, 3]\<rparr>"

section \<open>The three ways through Send\<close>

text \<open>
  \<open>Send\<close> leaves after a failed open, ends the process on an unrecognised variant, or
  makes one put. The lemmas give the result of each, and the descriptor of the put
  when the message's pointer is valid.
\<close>

lemma Send_open_failed:
  assumes "openResult K dest = (qObject, Some e)"
  shows "Send K producer dest msg h =
           \<lparr>outcome = Returned (errorBlock K (Some e)), heap = h, message = msg,
            trace = EvOpen (destinationOD K dest) (openOptions K) #
                    (if zeroMQObject \<noteq> qObject then [EvClose qObject 0] else [])\<rparr>"
  using assms by (simp add: Send_def openResult_def Let_def)

lemma Send_fatal:
  assumes "openResult K dest = (qObject, None)"
  shows "Send K producer dest OtherMessage h =
           \<lparr>outcome = Fatal (CreateJMSException ''UnexpectedMessageType''
                                  ''UnexpectedMessageType-send1'' None),
            heap = (h @ [NewMQMD K])[length h := (NewMQMD K)\<lparr>Persistence := persistenceOf K producer\<rparr>],
            message = OtherMessage,
            trace = [EvOpen (destinationOD K dest) (openOptions K)]\<rparr>"
  using assms by (simp add: Send_def openResult_def Let_def)

lemma dispatch_recognised:
  assumes "msg \<noteq> OtherMessage"
  shows "dispatch K msg h a =
           Some (with_mqmd msg (case mqmd msg of Some p \<Rightarrow> p | None \<Rightarrow> a),
                 h[(case mqmd msg of Some p \<Rightarrow> p | None \<Rightarrow> a) :=
                     (h ! (case mqmd msg of Some p \<Rightarrow> p | None \<Rightarrow> a))
                       \<lparr>Format := formatOf K msg\<rparr>],
                 (case mqmd msg of Some p \<Rightarrow> p | None \<Rightarrow> a),
                 payload msg)"
proof (cases msg)
  case (TextMessageImpl body p)
  then show ?thesis by (cases body) (simp_all add: Let_def)
next
  case (BytesMessageImpl body p)
  then show ?thesis by (simp add: Let_def)
next
  case OtherMessage
  with assms show ?thesis by simp
qed

lemma Send_put_eq:
  assumes "openResult K dest = (qObject, None)" and "msg \<noteq> OtherMessage"
    and "md = store_before_put K producer msg h ! put_address h msg"
    and "pmo = (NewMQPMO K)\<lparr>Options := putOptions K producer\<rparr>"
  shows "Send K producer dest msg h =
           \<lparr>outcome = Returned (errorBlock K (snd (Put K qObject md pmo (payload msg)))),
            heap = (store_before_put K producer msg h)
                     [put_address h msg := fst (Put K qObject md pmo (payload msg))],
            message = with_mqmd msg (put_address h msg),
            trace = [EvOpen (destinationOD K dest) (openOptions K),
                     EvPut qObject (put_address h msg) md pmo (payload msg)] @
                    (if zeroMQObject \<noteq> qObject then [EvClose qObject 0] else [])\<rparr>"
  using assms(1) unfolding assms(3,4)
  by (simp add: Send_def openResult_def Let_def dispatch_recognised [OF assms(2)]
        case_prod_unfold store_before_put_def put_address_def)

lemma store_before_put_valid:
  assumes "valid_message h msg"
  shows "store_before_put K producer msg h ! put_address h msg =
           (base_descriptor K producer h msg)
              \<lparr>Format := formatOf K msg,
               Expiry := (if 0 <s timeToLive producer
                          then div32 (to_int32 (timeToLive producer)) 100
                          else Expiry (base_descriptor K producer h msg))\<rparr>"
    and "put_address h msg < length (store_before_put K producer msg h)"
proof -
  show "put_address h msg < length (store_before_put K producer msg h)"
    using assms
    by (simp add: store_before_put_def applyTTL_def put_address_def valid_message_def
          split: option.splits)
  show "store_before_put K producer msg h ! put_address h msg =
           (base_descriptor K producer h msg)
              \<lparr>Format := formatOf K msg,
               Expiry := (if 0 <s timeToLive producer
                          then div32 (to_int32 (timeToLive producer)) 100
                          else Expiry (base_descriptor K producer h msg))\<rparr>"
  proof (cases "mqmd msg")
    case None
    then show ?thesis
      by (simp add: store_before_put_def applyTTL_def put_address_def base_descriptor_def)
  next
    case (Some p)
    with assms have "p < length h" by (simp add: valid_message_def)
    with Some show ?thesis
      by (simp add: store_before_put_def applyTTL_def put_address_def base_descriptor_def
            nth_append)
  qed
qed

text \<open>The trace, the outcome, the message and the stored descriptor of any \<open>Send\<close>.\<close>

lemma trace_Send:
  "trace (Send K producer dest msg h) =
     EvOpen (destinationOD K dest) (openOptions K) #
     (if snd (openResult K dest) = None
      then (if msg = OtherMessage then []
            else EvPut (fst (openResult K dest)) (put_address h msg)
                   (put_descriptor K producer msg h) (put_pmo K producer) (payload msg) #
                 deferred_close (fst (openResult K dest)))
      else deferred_close (fst (openResult K dest)))"
proof -
  obtain qObject err where o: "openResult K dest = (qObject, err)"
    by (cases "openResult K dest")
  show ?thesis
  proof (cases err)
    case (Some e)
    with o show ?thesis by (simp add: Send_open_failed deferred_close_def)
  next
    case None
    show ?thesis
    proof (cases "msg = OtherMessage")
      case True
      with o None show ?thesis by (simp add: Send_fatal)
    next
      case False
      with o None show ?thesis
        by (simp add: Send_put_eq [OF o [unfolded None] False refl refl]
              put_descriptor_def put_pmo_def deferred_close_def)
    qed
  qed
qed

lemma outcome_Send:
  "outcome (Send K producer dest msg h) =
     (case snd (openResult K dest) of
        Some e \<Rightarrow> Returned (errorBlock K (Some e))
      | None \<Rightarrow>
          if msg = OtherMessage
          then Fatal (CreateJMSException ''UnexpectedMessageType''
                        ''UnexpectedMessageType-send1'' None)
          else Returned (errorBlock K (snd (Put K (fst (openResult K dest))
                 (put_descriptor K producer msg h) (put_pmo K producer) (payload msg)))))"
proof -
  obtain qObject err where o: "openResult K dest = (qObject, err)"
    by (cases "openResult K dest")
  show ?thesis
  proof (cases err)
    case (Some e)
    with o show ?thesis by (simp add: Send_open_failed)
  next
    case None
    show ?thesis
    proof (cases "msg = OtherMessage")
      case True
      with o None show ?thesis by (simp add: Send_fatal)
    next
      case False
      with o None show ?thesis
        by (simp add: Send_put_eq [OF o [unfolded None] False refl refl]
              put_descriptor_def put_pmo_def)
    qed
  qed
qed

lemma message_Send:
  "message (Send K producer dest msg h) =
     (if snd (openResult K dest) = None then with_mqmd msg (put_address h msg) else msg)"
proof -
  obtain qObject err where o: "openResult K dest = (qObject, err)"
    by (cases "openResult K dest")
  show ?thesis
  proof (cases err)
    case (Some e)
    with o show ?thesis by (simp add: Send_open_failed)
  next
    case None
    show ?thesis
    proof (cases "msg = OtherMessage")
      case True
      with o None show ?thesis by (simp add: Send_fatal)
    next
      case False
      with o None show ?thesis
        by (simp add: Send_put_eq [OF o [unfolded None] False refl refl])
    qed
  qed
qed

lemma heap_Send_put:
  assumes "snd (openResult K dest) = None" and "msg \<noteq> OtherMessage"
    and "valid_message h msg"
  shows "heap (Send K producer dest msg h) ! put_address h msg =
           fst (Put K (fst (openResult K dest)) (put_descriptor K producer msg h)
                  (put_pmo K producer) (payload msg))"
proof -
  obtain qObject where o: "openResult K dest = (qObject, None)"
    using assms(1) by (cases "openResult K dest") simp
  show ?thesis
    using store_before_put_valid(2) [OF assms(3), of K producer]
    by (simp add: Send_put_eq [OF o assms(2) refl refl] o put_descriptor_def put_pmo_def)
qed

lemma put_options_Send:
  "put_options (trace (Send K producer dest msg h)) =
     (if snd (openResult K dest) = None \<and> msg \<noteq> OtherMessage
      then [put_pmo K producer] else [])"
  by (simp add: trace_Send deferred_close_def)

lemma puts_Send:
  "puts (trace (Send K producer dest msg h)) =
     (if snd (openResult K dest) = None \<and> msg \<noteq> OtherMessage
      then [(fst (openResult K dest), put_address h msg, put_descriptor K producer msg h,
             put_pmo K producer, payload msg)]
      else [])"
  by (simp add: trace_Send deferred_close_def)

lemma put_descriptors_Send:
  "put_descriptors (trace (Send K producer dest msg h)) =
     (if snd (openResult K dest) = None \<and> msg \<noteq> OtherMessage
      then [put_descriptor K producer msg h] else [])"
  by (simp add: trace_Send deferred_close_def)

lemma closes_Send:
  "closes (trace (Send K producer dest msg h)) =
     (if (snd (openResult K dest) = None \<and> msg = OtherMessage)
         \<or> zeroMQObject = fst (openResult K dest)
      then [] else [fst (openResult K dest)])"
  by (simp add: trace_Send deferred_close_def)

text \<open>Two facts on flag words, and the concrete values unfolded.\<close>

lemma flag_set:
  fixes s n :: int32
  shows "(s OR n) AND s = s" and "(s OR n) AND n = n"
  by (simp_all add: word_ao_absorbs ac_simps)

lemma flag_clear:
  fixes s t n :: int32
  assumes "s \<noteq> 0" and "s AND (t OR n) = 0"
  shows "(t OR n) AND s \<noteq> s"
  using assms by (simp add: and.commute)

lemma ibm_simps:
  "MQPMO_SYNCPOINT (ibm opn pt) = 2" "MQPMO_NO_SYNCPOINT (ibm opn pt) = 4"
  "MQPMO_NEW_MSG_ID (ibm opn pt) = 64"
  "MQPER_NOT_PERSISTENT (ibm opn pt) = 0" "MQPER_PERSISTENT (ibm opn pt) = 1"
  "MQFMT_STRING (ibm opn pt) = ''MQSTR''" "MQFMT_NONE (ibm opn pt) = []"
  "NewMQMD (ibm opn pt) = \<lparr>Format = [], Persistence = 2, Expiry = - 1,
     ReplyToQ = [], MsgId = replicate 24 0\<rparr>"
  "NewMQPMO (ibm opn pt) = \<lparr>Options = 0\<rparr>"
  "MQItoString (ibm opn pt) = reasons"
  "DeliveryMode_PERSISTENT (ibm opn pt) = 2" "DeliveryMode_NON_PERSISTENT (ibm opn pt) = 1"
  "JMSContextSESSIONTRANSACTED (ibm opn pt) = 0"
  "Open (ibm opn pt) = opn" "Put (ibm opn pt) = pt"
  "destinationOD (ibm opn pt) (Queue n) = \<lparr>ObjectType = 1, ObjectName = n\<rparr>"
  "openOptions (ibm opn pt) = 8209"
  "openResult (ibm opn pt) (Queue n) = opn \<lparr>ObjectType = 1, ObjectName = n\<rparr> 8209"
  by (simp_all add: ibm_def destinationOD_def openOptions_def openResult_def)

section \<open>Conversions and decimal renderings\<close>

text \<open>The conversions keep the value where it fits; \<open>decimal\<close> is read back by
  \<open>read_decimal\<close>; the error block written out.\<close>

lemma sint_to_int: "sint (to_int x) = sint x"
  by (simp add: to_int_def sint_up_scast is_up)

lemma to_int32_small:
  assumes "0 \<le> sint x" and "sint x < 2 ^ 31"
  shows "sint (to_int32 x) = sint x"
proof -
  have "uint x = take_bit 64 (sint x)"
    by (simp add: uint_sint)
  also have "\<dots> = sint x"
    using assms by (simp add: take_bit_int_eq_self)
  finally have u: "uint x = sint x" .
  have "sint (to_int32 x) = signed_take_bit 31 (uint x)"
    by (simp add: to_int32_def signed_ucast_eq)
  also have "\<dots> = sint x"
    using assms by (simp add: u signed_take_bit_int_eq_self)
  finally show ?thesis .
qed

lemma div32_small:
  assumes "0 < sint x" and "sint x < 2 ^ 31"
  shows "sint (div32 (to_int32 x) 100) = sint x div 100"
proof -
  have s: "sint (to_int32 x) = sint x"
    using assms by (simp add: to_int32_small)
  have "sint x sdiv 100 = sint x div 100"
    using assms by (simp add: signed_divide_int_def sgn_if)
  moreover have "0 \<le> sint x div 100" "sint x div 100 < 2 ^ 31"
    using assms by simp_all
  ultimately show ?thesis
    by (simp add: div32_def s sint_sbintrunc' signed_take_bit_int_eq_self)
qed

lemma decimal_value_snoc:
  "decimal_value (s @ [c]) = 10 * decimal_value s + (of_char c - 48)"
  by (simp add: decimal_value_def)

lemma decimal_value_digits: "decimal_value (digits n) = n"
proof (induction n rule: digits.induct)
  case (1 n)
  show ?case
  proof (cases "n < 10")
    case True
    then show ?thesis by (subst digits.simps) (simp add: decimal_value_def)
  next
    case False
    with 1 have "decimal_value (digits (n div 10)) = n div 10" by simp
    with False show ?thesis
      by (subst digits.simps) (simp add: decimal_value_snoc)
  qed
qed

lemma digit_not_minus:
  fixes d :: nat
  assumes "d < 10"
  shows "char_of (48 + d) \<noteq> CHR ''-''"
proof
  assume "char_of (48 + d) = CHR ''-''"
  then have "of_char (char_of (48 + d)) = (of_char CHR ''-'' :: nat)"
    by simp
  with assms show False by simp
qed

lemma digits_not_minus: "CHR ''-'' \<notin> set (digits n)"
proof (induction n rule: digits.induct)
  case (1 n)
  show ?case
  proof (cases "n < 10")
    case True
    with digit_not_minus [of n] show ?thesis
      by (subst digits.simps) auto
  next
    case False
    with 1 have "CHR ''-'' \<notin> set (digits (n div 10))" by simp
    with False digit_not_minus [of "n mod 10"] show ?thesis
      by (subst digits.simps) auto
  qed
qed

lemma digits_nonempty: "digits n \<noteq> []"
  by (subst digits.simps) simp

lemma read_decimal_decimal: "read_decimal (decimal i) = i"
proof (cases "i < 0")
  case True
  then show ?thesis
    by (simp add: read_decimal_def decimal_def decimal_value_digits)
next
  case False
  obtain c cs where d: "digits (nat i) = c # cs"
    using digits_nonempty [of "nat i"] by (cases "digits (nat i)") auto
  with digits_not_minus [of "nat i"] have "c \<noteq> CHR ''-''" by auto
  moreover from d have "decimal_value (c # cs) = nat i"
    using decimal_value_digits [of "nat i"] by simp
  ultimately show ?thesis
    using False d by (simp add: read_decimal_def decimal_def)
qed

lemma errorBlock_None: "errorBlock K None = None"
  by (simp add: errorBlock_def)

lemma errorBlock_Some:
  "errorBlock K (Some e) =
     Some \<lparr>reason = MQItoString K ''RC'' (to_int (MQRC e)),
           errorCode = decimal (sint (MQRC e)), linkedErr = Some e\<rparr>"
  by (simp add: errorBlock_def Let_def CreateJMSException_def Itoa_def sint_to_int)

lemma failure_Send:
  "failure K (trace (Send K producer dest msg h)) =
     (case snd (openResult K dest) of
        Some e \<Rightarrow> Some e
      | None \<Rightarrow>
          if msg = OtherMessage then None
          else snd (Put K (fst (openResult K dest)) (put_descriptor K producer msg h)
                     (put_pmo K producer) (payload msg)))"
  by (simp add: trace_Send deferred_close_def openResult_def split: option.splits)

text \<open>The descriptor of the put, and the bytes of a string read back.\<close>

lemma put_descriptor_valid:
  assumes "valid_message h msg"
  shows "put_descriptor K producer msg h =
           (base_descriptor K producer h msg)
              \<lparr>Format := formatOf K msg,
               Expiry := (if 0 <s timeToLive producer
                          then div32 (to_int32 (timeToLive producer)) 100
                          else Expiry (base_descriptor K producer h msg))\<rparr>"
  using store_before_put_valid(1) [OF assms] by (simp add: put_descriptor_def)

lemma valid_message_fresh: "mqmd msg = None \<Longrightarrow> valid_message h msg"
  by (simp add: valid_message_def)

lemma put_descriptor_in_trace:
  assumes "md \<in> set (put_descriptors (trace (Send K producer dest msg h)))"
  shows "md = put_descriptor K producer msg h" and "msg \<noteq> OtherMessage"
    and "snd (openResult K dest) = None"
  using assms by (simp_all add: put_descriptors_Send split: if_splits)

lemma unat_of_char: "unat (of_char c :: 8 word) = of_char c"
proof -
  have "unat (of_char c :: 8 word) = unat (of_nat (of_char c) :: 8 word)"
    by (simp only: of_nat_of_char)
  also have "\<dots> = of_char c mod 256"
    by (simp add: unat_of_nat)
  also have "\<dots> = of_char c"
    by simp
  finally show ?thesis .
qed

lemma string_of_bytes: "map (char_of \<circ> unat) (bytes_of_string s) = s"
  by (simp add: bytes_of_string_def comp_def unat_of_char)

section \<open>The claims\<close>

text \<open>
  C1, as the code has it. The deferred close is registered when the object that the
  open returned is not the zero object, whatever the open's error. So for every \<open>Send\<close>
  that returns, the trace is the open, the puts, and then one close of that object
  when it is not the zero object and no close when it is; there is one put when the
  open reported no error, and none when it reported one.
\<close>

theorem handle_closed_once:
  assumes "\<not> is_fatal (outcome (Send K producer dest msg h))"
  shows "trace (Send K producer dest msg h) =
           EvOpen (destinationOD K dest) (openOptions K) #
           map put_event (puts (trace (Send K producer dest msg h))) @
           (if zeroMQObject \<noteq> fst (openResult K dest)
            then [EvClose (fst (openResult K dest)) 0] else [])
       \<and> closes (trace (Send K producer dest msg h)) =
           (if zeroMQObject \<noteq> fst (openResult K dest) then [fst (openResult K dest)] else [])
       \<and> length (puts (trace (Send K producer dest msg h))) =
           (if snd (openResult K dest) = None then 1 else 0)"
proof -
  from assms have r: "snd (openResult K dest) = None \<Longrightarrow> msg \<noteq> OtherMessage"
    by (auto simp add: outcome_Send)
  show ?thesis
  proof (cases "snd (openResult K dest) = None")
    case True
    with r have "msg \<noteq> OtherMessage" by simp
    with True show ?thesis
      by (simp add: trace_Send deferred_close_def)
  next
    case False
    then show ?thesis
      by (simp add: trace_Send deferred_close_def)
  qed
qed

theorem handle_closed_once_witness:
  "outcome (Send (ibm open_ok put_full) producer0 (Queue ''Q1'')
      (TextMessageImpl (Some ''hello'') None) []) =
     Returned (Some \<lparr>reason = ''MQRC_Q_FULL'', errorCode = ''2053'',
        linkedErr = Some \<lparr>MQCC = 2, MQRC = 2053, verb = ''MQPUT''\<rparr>\<rparr>)
   \<and> closes (trace (Send (ibm open_ok put_full) producer0 (Queue ''Q1'')
      (TextMessageImpl (Some ''hello'') None) [])) =
     [\<lparr>hObj = 101, qMgr = Some 0, Name = ''Q1''\<rparr>]
   \<and> length (puts (trace (Send (ibm open_ok put_full) producer0 (Queue ''Q1'')
      (TextMessageImpl (Some ''hello'') None) []))) = 1
   \<and> closes (trace (Send (ibm open_nothing put_full) producer0 (Queue ''Q1'')
      (TextMessageImpl (Some ''hello'') None) [])) = []
   \<and> puts (trace (Send (ibm open_nothing put_full) producer0 (Queue ''Q1'')
      (TextMessageImpl (Some ''hello'') None) [])) = []"
  using handle_closed_once [of "ibm open_ok put_full" producer0 "Queue ''Q1''"
      "TextMessageImpl (Some ''hello'') None" "[]"]
    handle_closed_once [of "ibm open_nothing put_full" producer0 "Queue ''Q1''"
      "TextMessageImpl (Some ''hello'') None" "[]"]
  by (simp add: outcome_Send ibm_simps open_ok_def open_nothing_def zeroMQObject_def
        put_full_def errorBlock_Some reasons_def to_int_def decimal_def digits.simps
        char_of_eq_iff)

text \<open>
  C1 as stated fails where the open reports an error and returns a populated object:
  the close is attempted after the failed open.
\<close>

theorem close_after_failed_open:
  "snd (openResult (ibm open_unknown put_ok) (Queue ''Q1'')) =
     Some \<lparr>MQCC = 2, MQRC = 2085, verb = ''MQOPEN''\<rparr>
   \<and> closes (trace (Send (ibm open_unknown put_ok) producer0 (Queue ''Q1'')
        (TextMessageImpl (Some ''hello'') None) [])) =
     [\<lparr>hObj = - 1, qMgr = Some 0, Name = ''Q1''\<rparr>]"
  by (simp add: closes_Send ibm_simps open_unknown_def zeroMQObject_def)

text \<open>
  C2, as the code has it. The persistence is set from the delivery mode on the new
  descriptor, before the type switch. For every put of a message that carries no
  descriptor of its own, the descriptor's persistence is the non-persistent value when
  the producer's delivery mode is \<open>NON_PERSISTENT\<close> and the persistent value for every
  other delivery mode.
\<close>

theorem persistence_of_new_descriptor:
  assumes "md \<in> set (put_descriptors (trace (Send K producer dest msg h)))"
    and "mqmd msg = None"
  shows "Persistence md =
           (if deliveryMode producer = DeliveryMode_NON_PERSISTENT K
            then MQPER_NOT_PERSISTENT K else MQPER_PERSISTENT K)"
  using put_descriptor_in_trace(1) [OF assms(1)] assms(2)
  by (simp add: put_descriptor_valid [OF valid_message_fresh] base_descriptor_def
        persistenceOf_def)

theorem persistence_of_new_descriptor_witness:
  "put_descriptors (trace (Send (ibm open_ok put_ok) producer0 (Queue ''Q1'')
      (TextMessageImpl (Some ''hello'') None) [])) =
     [\<lparr>Format = ''MQSTR'', Persistence = 1, Expiry = - 1,
      ReplyToQ = [], MsgId = replicate 24 0\<rparr>]
   \<and> deliveryMode producer0 = DeliveryMode_PERSISTENT (ibm open_ok put_ok)"
  using persistence_of_new_descriptor [of
      "\<lparr>Format = ''MQSTR'', Persistence = 1, Expiry = - 1,
       ReplyToQ = [], MsgId = replicate 24 0\<rparr>"
      "ibm open_ok put_ok" producer0 "Queue ''Q1''" "TextMessageImpl (Some ''hello'') None" "[]"]
  by (simp add: put_descriptors_Send ibm_simps open_ok_def producer0_def
        put_descriptor_valid [OF valid_message_fresh] base_descriptor_def persistenceOf_def
        word_sless_alt)

text \<open>
  C2 as stated fails twice. A persistent producer sends a message that carries a
  descriptor with that descriptor's own persistence, here the non-persistent one; and a
  producer whose delivery mode is the unset value 0, which is not \<open>PERSISTENT\<close>, sends
  as persistent.
\<close>

theorem persistence_not_from_delivery_mode:
  "deliveryMode producer0 = DeliveryMode_PERSISTENT (ibm open_ok put_ok)
   \<and> map Persistence (put_descriptors (trace (Send (ibm open_ok put_ok) producer0
        (Queue ''Q1'') (TextMessageImpl (Some ''hello'') (Some 0)) [received]))) =
     [MQPER_NOT_PERSISTENT (ibm open_ok put_ok)]
   \<and> MQPER_NOT_PERSISTENT (ibm open_ok put_ok) \<noteq> MQPER_PERSISTENT (ibm open_ok put_ok)
   \<and> deliveryMode (producer0\<lparr>deliveryMode := 0\<rparr>) \<noteq> DeliveryMode_PERSISTENT (ibm open_ok put_ok)
   \<and> map Persistence (put_descriptors (trace (Send (ibm open_ok put_ok)
        (producer0\<lparr>deliveryMode := 0\<rparr>)
        (Queue ''Q1'') (TextMessageImpl (Some ''hello'') None) []))) =
     [MQPER_PERSISTENT (ibm open_ok put_ok)]"
  by (simp add: put_descriptors_Send ibm_simps open_ok_def producer0_def received_def
        put_descriptor_valid valid_message_def base_descriptor_def persistenceOf_def
        word_sless_alt)

text \<open>
  C3. When the open succeeded and the message is a text or bytes message whose pointer
  is valid, the one put works on the message's own descriptor when it has one, with
  every field but format and expiry as it was (the reply-to queue among them), and on a
  new descriptor at a fresh address otherwise; afterwards the message points to
  that descriptor, and the store holds there what the put left, with the fields it
  generated.
\<close>

theorem descriptor_reused_and_stored:
  assumes "snd (openResult K dest) = None" and "msg \<noteq> OtherMessage"
    and "valid_message h msg"
  shows "\<exists>obj a md pmo buf.
           puts (trace (Send K producer dest msg h)) = [(obj, a, md, pmo, buf)]
         \<and> a = (case mqmd msg of Some p \<Rightarrow> p | None \<Rightarrow> length h)
         \<and> md = (case mqmd msg of
                   Some p \<Rightarrow> h ! p
                 | None \<Rightarrow> (NewMQMD K)\<lparr>Persistence := persistenceOf K producer\<rparr>)
                  \<lparr>Format := formatOf K msg, Expiry := Expiry md\<rparr>
         \<and> ReplyToQ md = (case mqmd msg of Some p \<Rightarrow> ReplyToQ (h ! p)
                                         | None \<Rightarrow> ReplyToQ (NewMQMD K))
         \<and> mqmd (message (Send K producer dest msg h)) = Some a
         \<and> heap (Send K producer dest msg h) ! a = fst (Put K obj md pmo buf)"
proof -
  have m: "mqmd (with_mqmd msg a) = Some a" for a
    using assms(2) by (cases msg) simp_all
  from assms(1,2) heap_Send_put [OF assms, of producer] show ?thesis
    by (simp add: puts_Send message_Send m put_address_def
          put_descriptor_valid [OF assms(3)] base_descriptor_def split: option.splits)
qed

theorem descriptor_reused_and_stored_witness:
  "puts (trace (Send (ibm open_ok put_ok) producer0 (Queue ''Q1'')
      (TextMessageImpl (Some ''hello'') (Some 0)) [received])) =
     [(\<lparr>hObj = 101, qMgr = Some 0, Name = ''Q1''\<rparr>, 0,
       \<lparr>Format = ''MQSTR'', Persistence = 0, Expiry = 30, ReplyToQ = ''REPLIES'',
        MsgId = [1, 2, 3]\<rparr>,
       \<lparr>Options = 68\<rparr>, [104, 101, 108, 108, 111])]
   \<and> mqmd (message (Send (ibm open_ok put_ok) producer0 (Queue ''Q1'')
      (TextMessageImpl (Some ''hello'') (Some 0)) [received])) = Some 0
   \<and> heap (Send (ibm open_ok put_ok) producer0 (Queue ''Q1'')
      (TextMessageImpl (Some ''hello'') (Some 0)) [received]) ! 0 =
     \<lparr>Format = ''MQSTR'', Persistence = 0, Expiry = 30, ReplyToQ = ''REPLIES'',
      MsgId = [65, 77, 81]\<rparr>"
  using descriptor_reused_and_stored [of "ibm open_ok put_ok" "Queue ''Q1''"
      "TextMessageImpl (Some ''hello'') (Some 0)" "[received]" producer0]
  by (simp add: puts_Send message_Send ibm_simps open_ok_def put_ok_def valid_message_def
        received_def bytes_of_string_def put_descriptor_valid base_descriptor_def
        producer0_def put_address_def put_pmo_def putOptions_def syncpointSetting_def
        word_sless_alt)

text \<open>
  C4. Every put that a \<open>Send\<close> makes carries options that request syncpoint exactly when
  the session's transaction mode is the transacted one and no-syncpoint exactly when it
  is not, and that always include the flag asking for a new message identifier: they
  are the syncpoint setting of the session mode joined with that flag. The
  flags are told apart as bits, so the three constants are taken to be what the
  library makes them: the two syncpoint flags nonzero, and each disjoint from the other
  two flags.
\<close>

theorem put_options_syncpoint:
  assumes "pmo \<in> set (put_options (trace (Send K producer dest msg h)))"
    and "MQPMO_SYNCPOINT K \<noteq> 0" and "MQPMO_NO_SYNCPOINT K \<noteq> 0"
    and "MQPMO_SYNCPOINT K AND (MQPMO_NO_SYNCPOINT K OR MQPMO_NEW_MSG_ID K) = 0"
    and "MQPMO_NO_SYNCPOINT K AND (MQPMO_SYNCPOINT K OR MQPMO_NEW_MSG_ID K) = 0"
  shows "(Options pmo AND MQPMO_SYNCPOINT K = MQPMO_SYNCPOINT K) =
           (sessionMode (ctx producer) = JMSContextSESSIONTRANSACTED K)
       \<and> (Options pmo AND MQPMO_NO_SYNCPOINT K = MQPMO_NO_SYNCPOINT K) =
           (sessionMode (ctx producer) \<noteq> JMSContextSESSIONTRANSACTED K)
       \<and> Options pmo AND MQPMO_NEW_MSG_ID K = MQPMO_NEW_MSG_ID K
       \<and> Options pmo =
           (if sessionMode (ctx producer) = JMSContextSESSIONTRANSACTED K
            then MQPMO_SYNCPOINT K else MQPMO_NO_SYNCPOINT K) OR MQPMO_NEW_MSG_ID K"
proof -
  from assms(1) have opt: "Options pmo = putOptions K producer"
    by (simp add: put_options_Send put_pmo_def split: if_splits)
  show ?thesis
  proof (cases "sessionMode (ctx producer) = JMSContextSESSIONTRANSACTED K")
    case True
    then have "Options pmo = MQPMO_SYNCPOINT K OR MQPMO_NEW_MSG_ID K"
      by (simp add: opt putOptions_def syncpointSetting_def)
    with True flag_clear [OF assms(3) assms(5)] show ?thesis
      by (simp add: flag_set)
  next
    case False
    then have "Options pmo = MQPMO_NO_SYNCPOINT K OR MQPMO_NEW_MSG_ID K"
      by (simp add: opt putOptions_def syncpointSetting_def)
    with False flag_clear [OF assms(2) assms(4)] show ?thesis
      by (simp add: flag_set)
  qed
qed

theorem put_options_syncpoint_witness:
  "put_options (trace (Send (ibm open_ok put_ok) producer0 (Queue ''Q1'')
       (TextMessageImpl (Some ''hello'') None) [])) = [\<lparr>Options = 68\<rparr>]
   \<and> (68 :: int32) AND 2 \<noteq> 2 \<and> (68 :: int32) AND 4 = 4 \<and> (68 :: int32) AND 64 = 64"
  using put_options_syncpoint [of "\<lparr>Options = 68\<rparr>" "ibm open_ok put_ok" producer0
      "Queue ''Q1''" "TextMessageImpl (Some ''hello'') None" "[]"]
  by (simp add: put_options_Send ibm_simps open_ok_def producer0_def put_pmo_def
        putOptions_def syncpointSetting_def)

text \<open>
  C5, as the code has it. When the open fails with a native error, \<open>Send\<close> of any
  message returns the error built from it: the reason is \<open>MQItoString\<close> of its reason
  code, the error code is \<open>Itoa\<close> of the reason code and reads back as that number, and
  the native error is the wrapped cause. When the open succeeds and the message is a
  text or bytes message, one put is made, and \<open>Send\<close> returns the error built in the same
  way from the native error of that put, or \<open>nil\<close> when the put reports none.
\<close>

theorem error_normalised:
  assumes "msg \<noteq> OtherMessage"
  shows "case snd (openResult K dest) of
           Some e \<Rightarrow>
             outcome (Send K producer dest any h) =
               Returned (Some \<lparr>reason = MQItoString K ''RC'' (to_int (MQRC e)),
                               errorCode = Itoa (to_int (MQRC e)), linkedErr = Some e\<rparr>)
             \<and> returned_code (outcome (Send K producer dest any h)) = Some (sint (MQRC e))
         | None \<Rightarrow>
             (\<exists>obj a md pmo buf.
                puts (trace (Send K producer dest msg h)) = [(obj, a, md, pmo, buf)]
              \<and> outcome (Send K producer dest msg h) =
                  (case snd (Put K obj md pmo buf) of
                     Some e \<Rightarrow>
                       Returned (Some \<lparr>reason = MQItoString K ''RC'' (to_int (MQRC e)),
                                       errorCode = Itoa (to_int (MQRC e)),
                                       linkedErr = Some e\<rparr>)
                   | None \<Rightarrow> Returned None)
              \<and> returned_code (outcome (Send K producer dest msg h)) =
                  map_option (sint \<circ> MQRC) (snd (Put K obj md pmo buf)))"
proof (cases "snd (openResult K dest)")
  case (Some e)
  then show ?thesis
    by (simp add: outcome_Send errorBlock_Some read_decimal_decimal returned_code_def
          Itoa_def sint_to_int)
next
  case None
  with assms show ?thesis
    by (cases "snd (Put K (fst (openResult K dest)) (put_descriptor K producer msg h)
                 (put_pmo K producer) (payload msg))")
       (simp_all add: puts_Send outcome_Send errorBlock_Some errorBlock_None
          read_decimal_decimal returned_code_def Itoa_def sint_to_int)
qed

theorem error_normalised_witness:
  "outcome (Send (ibm open_unknown put_ok) producer0 (Queue ''Q1'') OtherMessage []) =
     Returned (Some \<lparr>reason = ''MQRC_UNKNOWN_OBJECT_NAME'', errorCode = ''2085'',
        linkedErr = Some \<lparr>MQCC = 2, MQRC = 2085, verb = ''MQOPEN''\<rparr>\<rparr>)
   \<and> outcome (Send (ibm open_ok put_full) producer0 (Queue ''Q1'')
        (TextMessageImpl (Some ''hello'') None) []) =
     Returned (Some \<lparr>reason = ''MQRC_Q_FULL'', errorCode = ''2053'',
        linkedErr = Some \<lparr>MQCC = 2, MQRC = 2053, verb = ''MQPUT''\<rparr>\<rparr>)
   \<and> length (puts (trace (Send (ibm open_ok put_ok) producer0 (Queue ''Q1'')
        (TextMessageImpl (Some ''hello'') None) []))) = 1
   \<and> outcome (Send (ibm open_ok put_ok) producer0 (Queue ''Q1'')
        (TextMessageImpl (Some ''hello'') None) []) = Returned None"
  using
    error_normalised [where msg = "TextMessageImpl (Some ''hello'') None"
      and K = "ibm open_unknown put_ok" and dest = "Queue ''Q1''" and producer = producer0
      and any = OtherMessage and h = "[]"]
    error_normalised [where msg = "TextMessageImpl (Some ''hello'') None"
      and K = "ibm open_ok put_full" and dest = "Queue ''Q1''" and producer = producer0
      and any = OtherMessage and h = "[]"]
    error_normalised [where msg = "TextMessageImpl (Some ''hello'') None"
      and K = "ibm open_ok put_ok" and dest = "Queue ''Q1''" and producer = producer0
      and any = OtherMessage and h = "[]"]
  by (simp add: puts_Send outcome_Send ibm_simps open_unknown_def open_ok_def put_full_def
        put_ok_def reasons_def errorBlock_Some errorBlock_None to_int_def Itoa_def
        decimal_def digits.simps char_of_eq_iff)

text \<open>
  C5 as stated fails for a message that is not a recognised variant, sent through an
  open that succeeds: no call fails, no put is made, and \<open>Send\<close> does not return
  \<open>nil\<close>: it ends the process.
\<close>

theorem no_native_error_and_no_return:
  "failure (ibm open_ok put_ok)
     (trace (Send (ibm open_ok put_ok) producer0 (Queue ''Q1'') OtherMessage [])) = None
   \<and> puts (trace (Send (ibm open_ok put_ok) producer0 (Queue ''Q1'') OtherMessage [])) = []
   \<and> outcome (Send (ibm open_ok put_ok) producer0 (Queue ''Q1'') OtherMessage []) =
     Fatal \<lparr>reason = ''UnexpectedMessageType'', errorCode = ''UnexpectedMessageType-send1'',
       linkedErr = None\<rparr>"
  by (simp add: failure_Send puts_Send outcome_Send ibm_simps open_ok_def
        CreateJMSException_def)

text \<open>
  C6, as the code has it. The time to live is converted to \<open>int32\<close> before the division.
  For every put whose producer has a time to live below \<open>2 ^ 31\<close>: when it is positive
  the expiry is the time to live divided by 100, and otherwise the expiry is left as
  the descriptor had it, the new descriptor's default or the value of the descriptor
  the message carried.
\<close>

theorem expiry_from_time_to_live:
  assumes "md \<in> set (put_descriptors (trace (Send K producer dest msg h)))"
    and "valid_message h msg"
    and "sint (timeToLive producer) < 2 ^ 31"
  shows "(if 0 < sint (timeToLive producer)
          then sint (Expiry md) = sint (timeToLive producer) div 100
          else Expiry md =
                 (case mqmd msg of
                    None \<Rightarrow> Expiry (NewMQMD K)
                  | Some p \<Rightarrow> Expiry (h ! p)))"
proof (cases "0 < sint (timeToLive producer)")
  case True
  with div32_small [OF True assms(3)] put_descriptor_in_trace(1) [OF assms(1)]
  show ?thesis
    by (simp add: put_descriptor_valid [OF assms(2)] word_sless_alt)
next
  case False
  with put_descriptor_in_trace(1) [OF assms(1)] show ?thesis
    by (simp add: put_descriptor_valid [OF assms(2)] word_sless_alt base_descriptor_def
          split: option.splits)
qed

theorem expiry_from_time_to_live_witness:
  "put_descriptors (trace (Send (ibm open_ok put_ok)
      (producer0\<lparr>timeToLive := 5000\<rparr>) (Queue ''Q1'')
      (TextMessageImpl (Some ''hello'') None) [])) =
     [\<lparr>Format = ''MQSTR'', Persistence = 1, Expiry = 50,
      ReplyToQ = [], MsgId = replicate 24 0\<rparr>]
   \<and> sint (timeToLive (producer0\<lparr>timeToLive := 5000\<rparr>)) = 5000
   \<and> sint (50 :: int32) = 5000 div 100
   \<and> map Expiry (put_descriptors (trace (Send (ibm open_ok put_ok) producer0
        (Queue ''Q1'') (TextMessageImpl (Some ''hello'') None) []))) = [- 1]"
  using expiry_from_time_to_live [of
      "\<lparr>Format = ''MQSTR'', Persistence = 1, Expiry = 50,
       ReplyToQ = [], MsgId = replicate 24 0\<rparr>"
      "ibm open_ok put_ok" "producer0\<lparr>timeToLive := 5000\<rparr>" "Queue ''Q1''"
      "TextMessageImpl (Some ''hello'') None" "[]"]
  by (simp add: put_descriptors_Send ibm_simps open_ok_def producer0_def
        put_descriptor_valid valid_message_def base_descriptor_def persistenceOf_def
        word_sless_alt div32_def to_int32_def)

text \<open>
  C6 as stated fails for a time to live of \<open>2 ^ 32\<close> milliseconds, whose expiry is 0 and
  not 42949672; and with a time to live of 0 a message that carries a descriptor is
  sent with that descriptor's expiry, here 30, where the default is \<open>- 1\<close>.
\<close>

theorem expiry_wraps:
  "map Expiry (put_descriptors (trace (Send (ibm open_ok put_ok)
      (producer0\<lparr>timeToLive := 4294967296\<rparr>) (Queue ''Q1'')
      (TextMessageImpl (Some ''hello'') None) []))) = [0]
   \<and> (4294967296 :: int) div 100 = 42949672
   \<and> timeToLive producer0 = 0
   \<and> map Expiry (put_descriptors (trace (Send (ibm open_ok put_ok) producer0
        (Queue ''Q1'') (TextMessageImpl (Some ''hello'') (Some 0)) [received]))) = [30]
   \<and> Expiry (NewMQMD (ibm open_ok put_ok)) = - 1"
  by (simp add: put_descriptors_Send ibm_simps open_ok_def producer0_def received_def
        put_descriptor_valid valid_message_def base_descriptor_def persistenceOf_def
        word_sless_alt div32_def to_int32_def)

text \<open>
  C7. \<open>SetDeliveryMode\<close> with a mode that is neither of the two delivery modes leaves
  the stored producers as they are and returns its receiver; \<open>SetTimeToLive\<close> with a
  negative value does the same (the setters have no error result: they print a line);
  a valid mode and a non-negative time to live are returned by the getter afterwards,
  the setter again returning its receiver.
\<close>

theorem setters_validate:
  assumes "mode \<noteq> DeliveryMode_PERSISTENT K" and "mode \<noteq> DeliveryMode_NON_PERSISTENT K"
    and "sint ttl < 0"
    and "mode' = DeliveryMode_PERSISTENT K \<or> mode' = DeliveryMode_NON_PERSISTENT K"
    and "0 \<le> sint ttl'"
  shows "producers (SetDeliveryMode K p mode ps) = ps
       \<and> returned (SetDeliveryMode K p mode ps) = p
       \<and> producers (SetTimeToLive p ttl ps) = ps
       \<and> returned (SetTimeToLive p ttl ps) = p
       \<and> returned (SetDeliveryMode K p mode' ps) = p
       \<and> GetDeliveryMode p (producers (SetDeliveryMode K p mode' ps)) = mode'
       \<and> returned (SetTimeToLive p ttl' ps) = p
       \<and> GetTimeToLive p (producers (SetTimeToLive p ttl' ps)) = ttl'"
  using assms
  by (auto simp add: SetDeliveryMode_def SetTimeToLive_def GetDeliveryMode_def
        GetTimeToLive_def word_sle_eq)

theorem setters_validate_witness:
  "producers (SetDeliveryMode (ibm open_ok put_ok) 0 7 (\<lambda>a. producer0)) = (\<lambda>a. producer0)
   \<and> producers (SetTimeToLive 0 (- 1) (\<lambda>a. producer0)) = (\<lambda>a. producer0)
   \<and> GetDeliveryMode 0 (producers (SetDeliveryMode (ibm open_ok put_ok) 0 1 (\<lambda>a. producer0))) = 1
   \<and> GetTimeToLive 0 (producers (SetTimeToLive 0 5000 (\<lambda>a. producer0))) = 5000"
  using setters_validate [of 7 "ibm open_ok put_ok" "- 1" 1 5000 0 "\<lambda>a. producer0"]
  by (simp add: ibm_simps)

text \<open>
  C8. When the open succeeded, a text message is put once, with the string format and
  with the bytes of its text as payload, the empty payload when the text is absent; the
  bytes read back as characters are the text. The result of \<open>Send\<close> is then the error
  block applied to what the put returned, so it is \<open>nil\<close> exactly when the put
  succeeded, whether the text is there or not.
\<close>

theorem text_message_put:
  assumes "snd (openResult K dest) = None"
    and "valid_message h (TextMessageImpl body p)"
  shows "\<exists>obj a md pmo.
           puts (trace (Send K producer dest (TextMessageImpl body p) h)) =
             [(obj, a, md, pmo, case body of Some s \<Rightarrow> bytes_of_string s | None \<Rightarrow> [])]
         \<and> Format md = MQFMT_STRING K
         \<and> outcome (Send K producer dest (TextMessageImpl body p) h) =
             Returned (errorBlock K (snd (Put K obj md pmo
               (case body of Some s \<Rightarrow> bytes_of_string s | None \<Rightarrow> []))))
         \<and> (outcome (Send K producer dest (TextMessageImpl body p) h) = Returned None) =
             (snd (Put K obj md pmo
               (case body of Some s \<Rightarrow> bytes_of_string s | None \<Rightarrow> [])) = None)
         \<and> map (char_of \<circ> unat) (case body of Some s \<Rightarrow> bytes_of_string s | None \<Rightarrow> []) =
             (case body of Some s \<Rightarrow> s | None \<Rightarrow> [])"
proof -
  have b: "payload (TextMessageImpl body p) =
             (case body of Some s \<Rightarrow> bytes_of_string s | None \<Rightarrow> [])"
    by (cases body) simp_all
  have f: "Format (put_descriptor K producer (TextMessageImpl body p) h) = MQFMT_STRING K"
    by (simp add: put_descriptor_valid [OF assms(2)])
  have e: "(errorBlock K x = None) = (x = None)" for x
    by (cases x) (simp_all add: errorBlock_None errorBlock_Some)
  from assms(1) f show ?thesis
    by (simp add: puts_Send outcome_Send b e string_of_bytes split: option.splits)
qed

theorem text_message_put_witness:
  "puts (trace (Send (ibm open_ok put_ok) producer0 (Queue ''Q1'')
      (TextMessageImpl (Some ''hello'') None) [])) =
     [(\<lparr>hObj = 101, qMgr = Some 0, Name = ''Q1''\<rparr>, 0,
       \<lparr>Format = ''MQSTR'', Persistence = 1, Expiry = - 1,
        ReplyToQ = [], MsgId = replicate 24 0\<rparr>,
       \<lparr>Options = 68\<rparr>, [104, 101, 108, 108, 111])]
   \<and> puts (trace (Send (ibm open_ok put_ok) producer0 (Queue ''Q1'')
      (TextMessageImpl None None) [])) =
     [(\<lparr>hObj = 101, qMgr = Some 0, Name = ''Q1''\<rparr>, 0,
       \<lparr>Format = ''MQSTR'', Persistence = 1, Expiry = - 1,
        ReplyToQ = [], MsgId = replicate 24 0\<rparr>,
       \<lparr>Options = 68\<rparr>, [])]
   \<and> outcome (Send (ibm open_ok put_ok) producer0 (Queue ''Q1'')
      (TextMessageImpl None None) []) = Returned None"
  using text_message_put [of "ibm open_ok put_ok" "Queue ''Q1''" "[]" "Some ''hello''" None
      producer0]
    text_message_put [of "ibm open_ok put_ok" "Queue ''Q1''" "[]" None None producer0]
  by (simp add: puts_Send outcome_Send ibm_simps open_ok_def put_ok_def valid_message_def
        bytes_of_string_def errorBlock_None put_descriptor_valid base_descriptor_def
        persistenceOf_def producer0_def put_address_def put_pmo_def putOptions_def
        syncpointSetting_def word_sless_alt)

text \<open>
  C9, as the code has it. \<open>Send\<close> ends in the fatal branch exactly when the message is
  not a recognised variant and the open reported no error: a text or bytes message
  never reaches it. \<open>Send\<close> of an unrecognised message ends the process when the open
  succeeded, and returns the error built from the open's native error when the open
  failed; such a message is never put and is left as it was.
\<close>

theorem fatal_on_unrecognised:
  "is_fatal (outcome (Send K producer dest msg h)) =
     (msg = OtherMessage \<and> snd (openResult K dest) = None)
   \<and> outcome (Send K producer dest OtherMessage h) =
       (case snd (openResult K dest) of
          None \<Rightarrow>
            Fatal (CreateJMSException ''UnexpectedMessageType''
                     ''UnexpectedMessageType-send1'' None)
        | Some e \<Rightarrow>
            Returned (Some \<lparr>reason = MQItoString K ''RC'' (to_int (MQRC e)),
                            errorCode = Itoa (to_int (MQRC e)), linkedErr = Some e\<rparr>))
   \<and> puts (trace (Send K producer dest OtherMessage h)) = []
   \<and> message (Send K producer dest OtherMessage h) = OtherMessage"
  by (cases "snd (openResult K dest)")
     (simp_all add: outcome_Send puts_Send message_Send errorBlock_Some Itoa_def sint_to_int)

theorem fatal_on_unrecognised_witness:
  "outcome (Send (ibm open_ok put_ok) producer0 (Queue ''Q1'') OtherMessage []) =
     Fatal \<lparr>reason = ''UnexpectedMessageType'', errorCode = ''UnexpectedMessageType-send1'',
       linkedErr = None\<rparr>
   \<and> outcome (Send (ibm open_nothing put_ok) producer0 (Queue ''Q1'') OtherMessage []) =
     Returned (Some \<lparr>reason = ''MQRC_UNKNOWN_OBJECT_NAME'', errorCode = ''2085'',
        linkedErr = Some \<lparr>MQCC = 2, MQRC = 2085, verb = ''MQOPEN''\<rparr>\<rparr>)
   \<and> is_fatal (outcome (Send (ibm open_ok put_ok) producer0 (Queue ''Q1'')
        (BytesMessageImpl [1, 2] None) [])) = False"
  using
    fatal_on_unrecognised [where K = "ibm open_ok put_ok" and dest = "Queue ''Q1''"
      and producer = producer0 and h = "[]" and msg = "BytesMessageImpl [1, 2] None"]
    fatal_on_unrecognised [where K = "ibm open_nothing put_ok" and dest = "Queue ''Q1''"
      and producer = producer0 and h = "[]" and msg = OtherMessage]
  by (simp add: ibm_simps open_ok_def open_nothing_def reasons_def CreateJMSException_def
        to_int_def Itoa_def decimal_def digits.simps char_of_eq_iff)

text \<open>
  C9 as stated fails where the open fails: \<open>Send\<close> of an unrecognised variant then
  returns the open's error as an ordinary error.
\<close>

theorem unrecognised_after_failed_open:
  "outcome (Send (ibm open_unknown put_ok) producer0 (Queue ''Q1'') OtherMessage []) =
     Returned (Some \<lparr>reason = ''MQRC_UNKNOWN_OBJECT_NAME'', errorCode = ''2085'',
        linkedErr = Some \<lparr>MQCC = 2, MQRC = 2085, verb = ''MQOPEN''\<rparr>\<rparr>)"
  by (simp add: outcome_Send ibm_simps open_unknown_def reasons_def errorBlock_Some
        to_int_def decimal_def digits.simps char_of_eq_iff)

text \<open>
  C10, as the code has it. When the open succeeded and the message is a text or bytes
  message, the message points afterwards to the descriptor that the put worked on, its
  own when it had one and the new one otherwise, and is otherwise as it was; this
  does not depend on what the put does or returns, so it holds when the put fails.
\<close>

theorem descriptor_stored_before_put:
  assumes "snd (openResult K dest) = None" and "msg \<noteq> OtherMessage"
  shows "mqmd (message (Send K producer dest msg h)) =
           Some (case mqmd msg of Some p \<Rightarrow> p | None \<Rightarrow> length h)
       \<and> message (Send K producer dest msg h) =
           with_mqmd msg (case mqmd msg of Some p \<Rightarrow> p | None \<Rightarrow> length h)
       \<and> message (Send (K\<lparr>Put := put'\<rparr>) producer dest msg h) =
           message (Send K producer dest msg h)
       \<and> map (fst \<circ> snd) (puts (trace (Send K producer dest msg h))) =
           [case mqmd msg of Some p \<Rightarrow> p | None \<Rightarrow> length h]"
proof -
  have m: "mqmd (with_mqmd msg a) = Some a" for a
    using assms(2) by (cases msg) simp_all
  have o: "openResult (K\<lparr>Put := put'\<rparr>) dest = openResult K dest"
    by (simp add: openResult_def destinationOD_def openOptions_def)
  from assms show ?thesis
    by (simp add: message_Send puts_Send m o put_address_def)
qed

theorem descriptor_stored_before_put_witness:
  "snd (put_full \<lparr>hObj = 101, qMgr = Some 0, Name = ''Q1''\<rparr>
      \<lparr>Format = ''MQSTR'', Persistence = 1, Expiry = - 1,
       ReplyToQ = [], MsgId = replicate 24 0\<rparr>
      \<lparr>Options = 68\<rparr> [104, 101, 108, 108, 111]) =
     Some \<lparr>MQCC = 2, MQRC = 2053, verb = ''MQPUT''\<rparr>
   \<and> message (Send (ibm open_ok put_full) producer0 (Queue ''Q1'')
      (TextMessageImpl (Some ''hello'') None) []) = TextMessageImpl (Some ''hello'') (Some 0)"
  using descriptor_stored_before_put [of "ibm open_ok put_full" "Queue ''Q1''"
      "TextMessageImpl (Some ''hello'') None" producer0 "[]" put_ok]
  by (simp add: ibm_simps open_ok_def put_full_def)

text \<open>
  C10 as stated fails for a text message that carries a descriptor which already has
  the string format, sent with no time to live through a put that fails: the message
  and its descriptor are afterwards what they were before.
\<close>

theorem message_unchanged_after_failed_put:
  "outcome (Send (ibm open_ok put_full) producer0 (Queue ''Q1'')
      (TextMessageImpl (Some ''hello'') (Some 0)) [received]) =
     Returned (Some \<lparr>reason = ''MQRC_Q_FULL'', errorCode = ''2053'',
        linkedErr = Some \<lparr>MQCC = 2, MQRC = 2053, verb = ''MQPUT''\<rparr>\<rparr>)
   \<and> message (Send (ibm open_ok put_full) producer0 (Queue ''Q1'')
      (TextMessageImpl (Some ''hello'') (Some 0)) [received]) =
     TextMessageImpl (Some ''hello'') (Some 0)
   \<and> heap (Send (ibm open_ok put_full) producer0 (Queue ''Q1'')
      (TextMessageImpl (Some ''hello'') (Some 0)) [received]) ! 0 = received"
  using heap_Send_put [of "ibm open_ok put_full" "Queue ''Q1''"
      "TextMessageImpl (Some ''hello'') (Some 0)" "[received]" producer0]
  by (simp add: outcome_Send message_Send ibm_simps open_ok_def put_full_def
        valid_message_def put_address_def put_descriptor_valid base_descriptor_def
        received_def producer0_def word_sless_alt errorBlock_Some reasons_def to_int_def
        decimal_def digits.simps char_of_eq_iff)

end
